theory Spec2Isabelle
  imports Main
begin

section \<open>Values handled by the request handlers of \<^verbatim>\<open>app.py\<close>\<close>

text \<open>
  The handlers receive what \<^verbatim>\<open>request.get_json()\<close> parsed and what the two core objects
  (\<^verbatim>\<open>decoder\<close>, \<^verbatim>\<open>classplus_client\<close>) return, and they hand dictionaries to
  \<^verbatim>\<open>jsonify\<close>. All of these are Python values of the JSON shapes: \<^verbatim>\<open>None\<close>, booleans,
  integers, floats, strings, lists and dictionaries with string keys. A float is kept as
  mantissa and binary exponent (or infinity, or not-a-number): the handlers only ever test
  it for truth. A dictionary is the list of its items; a lookup takes the first item with
  the key.

  What is not modelled: the rate limiter (a request it refuses never reaches a handler),
  the log lines (formatting these values does not raise), and values of the core that
  \<^verbatim>\<open>jsonify\<close> could not serialise.
\<close>

datatype pyfloat = FloatFinite int int | FloatInf bool | FloatNaN

datatype pyval =
    PNone
  | PBool bool
  | PInt int
  | PFloat pyfloat
  | PStr string
  | PList "pyval list"
  | PDict "(string \<times> pyval) list"

text \<open>Python's truth test, as used by \<^verbatim>\<open>if not x\<close> and \<^verbatim>\<open>if x\<close>.\<close>

fun truthy :: "pyval \<Rightarrow> bool" where
  "truthy PNone = False"
| "truthy (PBool b) = b"
| "truthy (PInt i) = (i \<noteq> 0)"
| "truthy (PFloat f) = (case f of FloatFinite m e \<Rightarrow> m \<noteq> 0 | FloatInf negative \<Rightarrow> True | FloatNaN \<Rightarrow> True)"
| "truthy (PStr s) = (s \<noteq> [])"
| "truthy (PList xs) = (xs \<noteq> [])"
| "truthy (PDict kvs) = (kvs \<noteq> [])"

text \<open>\<^verbatim>\<open>isinstance(x, list)\<close>.\<close>

fun isinstance_list :: "pyval \<Rightarrow> bool" where
  "isinstance_list (PList xs) = True"
| "isinstance_list v = False"

fun type_name :: "pyval \<Rightarrow> string" where
  "type_name PNone = ''NoneType''"
| "type_name (PBool b) = ''bool''"
| "type_name (PInt i) = ''int''"
| "type_name (PFloat f) = ''float''"
| "type_name (PStr s) = ''str''"
| "type_name (PList xs) = ''list''"
| "type_name (PDict kvs) = ''dict''"

text \<open>
  An exception (every one met here derives from \<^verbatim>\<open>Exception\<close>) is its class name and the
  text \<^verbatim>\<open>str(e)\<close> gives.
\<close>

datatype exn = Exn (exn_class: string) (exn_str: string)

definition quote :: "string \<Rightarrow> string" where
  "quote s = CHR 0x27 # s @ [CHR 0x27]"

definition no_attribute_get :: "pyval \<Rightarrow> exn" where
  "no_attribute_get v =
     Exn ''AttributeError'' (quote (type_name v) @ '' object has no attribute '' @ quote ''get'')"

text \<open>
  \<^verbatim>\<open>x.get(key, default)\<close>: only a dictionary has the method; on any other value the
  attribute lookup raises \<^verbatim>\<open>AttributeError\<close>.
\<close>

fun py_get :: "pyval \<Rightarrow> string \<Rightarrow> pyval \<Rightarrow> exn + pyval" where
  "py_get (PDict kvs) k d = Inr (case map_of kvs k of None \<Rightarrow> d | Some v \<Rightarrow> v)"
| "py_get v k d = Inl (no_attribute_get v)"

section \<open>The core objects and the record of their calls\<close>

text \<open>
  \<^verbatim>\<open>utils/decoder.py\<close> and \<^verbatim>\<open>utils/classplus_client.py\<close> are imported by
  \<^verbatim>\<open>app.py\<close> and are taken as a parameter: five methods that read and change some state
  of the outside world \<open>'st\<close> (clock, network, caches) and either return a value or raise.
\<close>

record 'st core =
  client_validate_token :: "pyval \<Rightarrow> 'st \<Rightarrow> (exn + pyval) \<times> 'st"
  client_get_token_info :: "pyval \<Rightarrow> 'st \<Rightarrow> (exn + pyval) \<times> 'st"
  decoder_decode_url :: "pyval \<Rightarrow> pyval \<Rightarrow> 'st \<Rightarrow> (exn + pyval) \<times> 'st"
  decoder_generate_playable_url :: "pyval \<Rightarrow> pyval \<Rightarrow> 'st \<Rightarrow> (exn + pyval) \<times> 'st"
  decoder_get_timestamp :: "'st \<Rightarrow> (exn + pyval) \<times> 'st"

datatype call =
    ValidateToken pyval
  | GetTokenInfo pyval
  | DecodeUrl pyval pyval
  | GeneratePlayableUrl pyval pyval
  | GetTimestamp

type_synonym event = "call \<times> (exn + pyval)"

text \<open>
  A handler runs on the state of the world together with the list of core calls made so
  far, each with its outcome.
\<close>

type_synonym 'st run = "'st \<times> event list"

type_synonym ('st, 'a) io = "'st run \<Rightarrow> (exn + 'a) \<times> 'st run"

definition pure_io :: "'a \<Rightarrow> ('st, 'a) io" where
  "pure_io x = (\<lambda>st. (Inr x, st))"

definition lift_io :: "exn + 'a \<Rightarrow> ('st, 'a) io" where
  "lift_io r = (\<lambda>st. (r, st))"

definition bind_io :: "('st, 'a) io \<Rightarrow> ('a \<Rightarrow> ('st, 'b) io) \<Rightarrow> ('st, 'b) io" where
  "bind_io m f = (\<lambda>st. case m st of (Inl e, st') \<Rightarrow> (Inl e, st') | (Inr x, st') \<Rightarrow> f x st')"

definition invoke :: "call \<Rightarrow> ('st \<Rightarrow> (exn + pyval) \<times> 'st) \<Rightarrow> ('st, pyval) io" where
  "invoke c m = (\<lambda>(s, tr). case m s of (r, s') \<Rightarrow> (r, (s', tr @ [(c, r)])))"

definition call_validate_token :: "'st core \<Rightarrow> pyval \<Rightarrow> ('st, pyval) io" where
  "call_validate_token core token = invoke (ValidateToken token) (client_validate_token core token)"

definition call_get_token_info :: "'st core \<Rightarrow> pyval \<Rightarrow> ('st, pyval) io" where
  "call_get_token_info core token = invoke (GetTokenInfo token) (client_get_token_info core token)"

definition call_decode_url :: "'st core \<Rightarrow> pyval \<Rightarrow> pyval \<Rightarrow> ('st, pyval) io" where
  "call_decode_url core encrypted_url token =
     invoke (DecodeUrl encrypted_url token) (decoder_decode_url core encrypted_url token)"

definition call_generate_playable_url :: "'st core \<Rightarrow> pyval \<Rightarrow> pyval \<Rightarrow> ('st, pyval) io" where
  "call_generate_playable_url core url token =
     invoke (GeneratePlayableUrl url token) (decoder_generate_playable_url core url token)"

definition call_get_timestamp :: "'st core \<Rightarrow> ('st, pyval) io" where
  "call_get_timestamp core = invoke GetTimestamp (decoder_get_timestamp core)"

section \<open>Responses\<close>

record response =
  status :: nat
  body :: pyval

definition jsonify :: "(string \<times> pyval) list \<Rightarrow> nat \<Rightarrow> response" where
  "jsonify d code = \<lparr>status = code, body = PDict d\<rparr>"

text \<open>The body every \<^verbatim>\<open>except Exception as e\<close> of the JSON handlers answers with.\<close>

definition internal_error :: "bool \<Rightarrow> exn \<Rightarrow> response" where
  "internal_error debug e =
     jsonify [(''error'', PStr ''Internal server error''),
              (''code'', PStr ''INTERNAL_ERROR''),
              (''details'', if debug then PStr (exn_str e) else PNone)] 500"

text \<open>The outer \<^verbatim>\<open>try\<close> of a handler: an exception of the body becomes the answer.\<close>

definition handle_with :: "(exn \<Rightarrow> response) \<Rightarrow> ('st, response) io \<Rightarrow> 'st run \<Rightarrow> response \<times> 'st run" where
  "handle_with h m st = (case m st of (Inl e, st') \<Rightarrow> (h e, st') | (Inr r, st') \<Rightarrow> (r, st'))"

section \<open>\<^verbatim>\<open>POST /api/decode\<close>\<close>

definition decode_video_url_try :: "'st core \<Rightarrow> exn + pyval \<Rightarrow> ('st, response) io" where
  "decode_video_url_try core get_json =
     bind_io (lift_io get_json) (\<lambda>data.
     if \<not> truthy data then
       pure_io (jsonify [(''error'', PStr ''Invalid JSON payload''),
                         (''code'', PStr ''INVALID_JSON'')] 400)
     else
     bind_io (lift_io (py_get data ''token'' PNone)) (\<lambda>token.
     bind_io (lift_io (py_get data ''encrypted_url'' PNone)) (\<lambda>encrypted_url.
     bind_io (lift_io (py_get data ''video_id'' PNone)) (\<lambda>video_id.
     if \<not> truthy token then
       pure_io (jsonify [(''error'', PStr ''Token is required''),
                         (''code'', PStr ''MISSING_TOKEN'')] 400)
     else if \<not> truthy encrypted_url then
       pure_io (jsonify [(''error'', PStr ''Encrypted URL is required''),
                         (''code'', PStr ''MISSING_URL'')] 400)
     else
     bind_io (call_validate_token core token) (\<lambda>valid.
     if \<not> truthy valid then
       pure_io (jsonify [(''error'', PStr ''Invalid or expired token''),
                         (''code'', PStr ''INVALID_TOKEN'')] 401)
     else
     bind_io (call_decode_url core encrypted_url token) (\<lambda>decoded_url.
     if \<not> truthy decoded_url then
       pure_io (jsonify [(''error'', PStr ''Failed to decode URL''),
                         (''code'', PStr ''DECODE_FAILED'')] 400)
     else
     bind_io (call_generate_playable_url core decoded_url token) (\<lambda>playable_url.
       pure_io (jsonify [(''status'', PStr ''ok''),
                         (''success'', PBool True),
                         (''url'', playable_url),
                         (''decoded_url'', decoded_url),
                         (''video_id'', video_id)] 200))))))))"

definition decode_video_url :: "'st core \<Rightarrow> bool \<Rightarrow> exn + pyval \<Rightarrow> 'st run \<Rightarrow> response \<times> 'st run" where
  "decode_video_url core debug get_json =
     handle_with (internal_error debug) (decode_video_url_try core get_json)"

section \<open>\<^verbatim>\<open>POST /api/batch-decode\<close>\<close>

text \<open>
  The body of the inner \<^verbatim>\<open>try\<close>, run once for each element of \<^verbatim>\<open>urls\<close>. It gives the
  entry that the iteration appends to \<^verbatim>\<open>results\<close>, or raises.
\<close>

definition process_url_data :: "'st core \<Rightarrow> pyval \<Rightarrow> pyval \<Rightarrow> ('st, pyval) io" where
  "process_url_data core token url_data =
     bind_io (lift_io (py_get url_data ''encrypted_url'' PNone)) (\<lambda>encrypted_url.
     bind_io (lift_io (py_get url_data ''video_id'' PNone)) (\<lambda>video_id.
     if \<not> truthy encrypted_url then
       pure_io (PDict [(''video_id'', video_id),
                       (''success'', PBool False),
                       (''error'', PStr ''Missing encrypted_url'')])
     else
     bind_io (call_decode_url core encrypted_url token) (\<lambda>decoded_url.
     if truthy decoded_url then
       bind_io (call_generate_playable_url core decoded_url token) (\<lambda>playable_url.
       pure_io (PDict [(''video_id'', video_id),
                       (''success'', PBool True),
                       (''video_url'', playable_url),
                       (''decoded_url'', decoded_url)]))
     else
       pure_io (PDict [(''video_id'', video_id),
                       (''success'', PBool False),
                       (''error'', PStr ''Failed to decode URL'')]))))"

text \<open>
  The \<^verbatim>\<open>for url_data in urls\<close> loop with its \<^verbatim>\<open>try\<close> and \<^verbatim>\<open>except Exception as e\<close>.
  The \<^verbatim>\<open>except\<close> clause evaluates \<^verbatim>\<open>url_data.get('video_id')\<close> itself: when that raises,
  the exception leaves the loop.
\<close>

fun url_loop :: "'st core \<Rightarrow> pyval \<Rightarrow> pyval list \<Rightarrow> pyval list \<Rightarrow> ('st, pyval list) io" where
  "url_loop core token [] results st = (Inr results, st)"
| "url_loop core token (url_data # rest) results st =
     (case process_url_data core token url_data st of
        (Inr entry, st') \<Rightarrow> url_loop core token rest (results @ [entry]) st'
      | (Inl e, st') \<Rightarrow>
          (case py_get url_data ''video_id'' PNone of
             Inl e' \<Rightarrow> (Inl e', st')
           | Inr video_id \<Rightarrow>
               url_loop core token rest
                 (results @ [PDict [(''video_id'', video_id),
                                    (''success'', PBool False),
                                    (''error'', PStr (exn_str e))]]) st'))"

text \<open>\<^verbatim>\<open>[r for r in results if r.get('success')]\<close>.\<close>

fun successful_results :: "pyval list \<Rightarrow> exn + pyval list" where
  "successful_results [] = Inr []"
| "successful_results (r # rs) =
     (case py_get r ''success'' PNone of
        Inl e \<Rightarrow> Inl e
      | Inr flag \<Rightarrow>
          (case successful_results rs of
             Inl e \<Rightarrow> Inl e
           | Inr kept \<Rightarrow> Inr (if truthy flag then r # kept else kept)))"

text \<open>The elements a \<^verbatim>\<open>for\<close> loop over a list visits (the loop is only reached with a list).\<close>

fun list_items :: "pyval \<Rightarrow> pyval list" where
  "list_items (PList xs) = xs"
| "list_items v = []"

definition batch_decode_urls_try :: "'st core \<Rightarrow> exn + pyval \<Rightarrow> ('st, response) io" where
  "batch_decode_urls_try core get_json =
     bind_io (lift_io get_json) (\<lambda>data.
     if \<not> truthy data then
       pure_io (jsonify [(''error'', PStr ''Invalid JSON payload''),
                         (''code'', PStr ''INVALID_JSON'')] 400)
     else
     bind_io (lift_io (py_get data ''token'' PNone)) (\<lambda>token.
     bind_io (lift_io (py_get data ''urls'' (PList []))) (\<lambda>urls.
     if \<not> truthy token then
       pure_io (jsonify [(''error'', PStr ''Token is required''),
                         (''code'', PStr ''MISSING_TOKEN'')] 400)
     else if \<not> truthy urls \<or> \<not> isinstance_list urls then
       pure_io (jsonify [(''error'', PStr ''URLs array is required''),
                         (''code'', PStr ''MISSING_URLS'')] 400)
     else
     bind_io (call_validate_token core token) (\<lambda>valid.
     if \<not> truthy valid then
       pure_io (jsonify [(''error'', PStr ''Invalid or expired token''),
                         (''code'', PStr ''INVALID_TOKEN'')] 401)
     else
     bind_io (url_loop core token (list_items urls) []) (\<lambda>results.
     bind_io (lift_io (successful_results results)) (\<lambda>successful.
     bind_io (call_get_timestamp core) (\<lambda>timestamp.
       pure_io (jsonify [(''success'', PBool True),
                         (''results'', PList results),
                         (''total'', PInt (int (length (list_items urls)))),
                         (''successful'', PInt (int (length successful))),
                         (''timestamp'', timestamp)] 200))))))))"

definition batch_decode_urls :: "'st core \<Rightarrow> bool \<Rightarrow> exn + pyval \<Rightarrow> 'st run \<Rightarrow> response \<times> 'st run" where
  "batch_decode_urls core debug get_json =
     handle_with (internal_error debug) (batch_decode_urls_try core get_json)"

section \<open>\<^verbatim>\<open>POST /api/validate-token\<close>\<close>

definition validate_token_try :: "'st core \<Rightarrow> exn + pyval \<Rightarrow> ('st, response) io" where
  "validate_token_try core get_json =
     bind_io (lift_io get_json) (\<lambda>data.
     if \<not> truthy data then
       pure_io (jsonify [(''error'', PStr ''Invalid JSON payload''),
                         (''code'', PStr ''INVALID_JSON'')] 400)
     else
     bind_io (lift_io (py_get data ''token'' PNone)) (\<lambda>token.
     if \<not> truthy token then
       pure_io (jsonify [(''error'', PStr ''Token is required''),
                         (''code'', PStr ''MISSING_TOKEN'')] 400)
     else
     bind_io (call_validate_token core token) (\<lambda>is_valid.
     if truthy is_valid then
       bind_io (call_get_token_info core token) (\<lambda>token_info.
       bind_io (call_get_timestamp core) (\<lambda>timestamp.
       pure_io (jsonify [(''valid'', PBool True),
                         (''token_info'', token_info),
                         (''timestamp'', timestamp)] 200)))
     else
       bind_io (call_get_timestamp core) (\<lambda>timestamp.
       pure_io (jsonify [(''valid'', PBool False),
                         (''error'', PStr ''Invalid or expired token''),
                         (''timestamp'', timestamp)] 401)))))"

definition validate_token :: "'st core \<Rightarrow> bool \<Rightarrow> exn + pyval \<Rightarrow> 'st run \<Rightarrow> response \<times> 'st run" where
  "validate_token core debug get_json =
     handle_with (internal_error debug) (validate_token_try core get_json)"

section \<open>\<^verbatim>\<open>GET /api\<close>\<close>

text \<open>
  \<^verbatim>\<open>request.args.get(key)\<close>: the first value of the query parameter, a string, or
  \<^verbatim>\<open>None\<close>.
\<close>

definition args_get :: "(string \<times> string) list \<Rightarrow> string \<Rightarrow> pyval" where
  "args_get args k = (case map_of args k of None \<Rightarrow> PNone | Some v \<Rightarrow> PStr v)"

definition simple_error :: "string \<Rightarrow> nat \<Rightarrow> response" where
  "simple_error msg code =
     jsonify [(''status'', PStr ''error''), (''success'', PBool False), (''error'', PStr msg)] code"

definition decode_video_url_simple_try :: "'st core \<Rightarrow> (string \<times> string) list \<Rightarrow> ('st, response) io" where
  "decode_video_url_simple_try core args =
     (let video_url = args_get args ''url'';
          token = args_get args ''token''
      in
      if \<not> truthy video_url then pure_io (simple_error ''URL parameter is required'' 400)
      else if \<not> truthy token then pure_io (simple_error ''Token parameter is required'' 400)
      else
      bind_io (call_validate_token core token) (\<lambda>valid.
      if \<not> truthy valid then pure_io (simple_error ''Invalid or expired token'' 401)
      else
      bind_io (call_generate_playable_url core video_url token) (\<lambda>playable_url.
        pure_io (jsonify [(''status'', PStr ''ok''),
                          (''success'', PBool True),
                          (''url'', playable_url)] 200))))"

definition decode_video_url_simple :: "'st core \<Rightarrow> (string \<times> string) list \<Rightarrow> 'st run \<Rightarrow> response \<times> 'st run" where
  "decode_video_url_simple core args =
     handle_with (\<lambda>e. simple_error ''Internal server error'' 500) (decode_video_url_simple_try core args)"

section \<open>Predicates on values and on the record of calls\<close>

text \<open>\<^verbatim>\<open>isinstance(x, dict)\<close>: the shape the docstrings give to the payload and to a batch entry.\<close>

fun is_dict :: "pyval \<Rightarrow> bool" where
  "is_dict (PDict kvs) = True"
| "is_dict v = False"

text \<open>
  The core calls made while one URL is processed: \<^verbatim>\<open>decode_url\<close> and
  \<^verbatim>\<open>generate_playable_url\<close>, with the request's token and a first argument that passed
  the truth test.
\<close>

fun item_event :: "pyval \<Rightarrow> event \<Rightarrow> bool" where
  "item_event token (DecodeUrl encrypted_url t, r) = (t = token \<and> truthy encrypted_url)"
| "item_event token (GeneratePlayableUrl url t, r) = (t = token \<and> truthy url)"
| "item_event token (c, r) = False"

fun batch_event :: "pyval \<Rightarrow> event \<Rightarrow> bool" where
  "batch_event token (GetTimestamp, r) = True"
| "batch_event token ev = item_event token ev"

text \<open>
  The shape of the calls of one request that is gated by the token check: no call at all
  (status 400 or 500); a validation that raised (500); a validation that returned a false
  value and nothing after it (401); or a validation that returned a true value, followed
  only by calls that \<open>allowed\<close> admits for that token.
\<close>

definition gated :: "(pyval \<Rightarrow> event \<Rightarrow> bool) \<Rightarrow> response \<Rightarrow> event list \<Rightarrow> bool" where
  "gated allowed resp tr \<longleftrightarrow>
       (tr = [] \<and> (status resp = 400 \<or> status resp = 500))
     \<or> (\<exists>token e. tr = [(ValidateToken token, Inl e)] \<and> status resp = 500)
     \<or> (\<exists>token v. tr = [(ValidateToken token, Inr v)] \<and> \<not> truthy v \<and> status resp = 401)
     \<or> (\<exists>token v rest. tr = (ValidateToken token, Inr v) # rest \<and> truthy v
           \<and> list_all (allowed token) rest)"

text \<open>The flag \<^verbatim>\<open>r.get('success')\<close> of a result entry is \<^verbatim>\<open>True\<close>.\<close>

definition success_flag :: "pyval \<Rightarrow> bool" where
  "success_flag r = (py_get r ''success'' PNone = Inr (PBool True))"

text \<open>
  An entry of \<^verbatim>\<open>results\<close> written for the element \<open>url_data\<close>: a dictionary that starts
  with the element's \<^verbatim>\<open>video_id\<close> and a boolean \<^verbatim>\<open>success\<close>.
\<close>

definition result_entry :: "pyval \<Rightarrow> pyval \<Rightarrow> bool" where
  "result_entry url_data r \<longleftrightarrow>
     (\<exists>flag rest. r = PDict ((''video_id'', case py_get url_data ''video_id'' PNone of
                                               Inr v \<Rightarrow> v | Inl e \<Rightarrow> PNone)
                              # (''success'', PBool flag) # rest))"

section \<open>A sample core, for concrete runs\<close>

text \<open>
  The state of the world is a clock. One token is valid; an encrypted URL is a string that
  starts with \<^verbatim>\<open>enc:\<close>, anything else a string that does not decode, and a value that is
  not a string makes the decoder raise.
\<close>

definition demo_core :: "nat core" where
  "demo_core = \<lparr>
     client_validate_token = (\<lambda>token clock. (Inr (PBool (token = PStr ''good-token'')), clock)),
     client_get_token_info = (\<lambda>token clock. (Inr (PDict [(''user_id'', PStr ''u1'')]), clock)),
     decoder_decode_url = (\<lambda>encrypted_url token clock.
        (case encrypted_url of
           PStr u \<Rightarrow> Inr (if take 4 u = ''enc:'' then PStr (drop 4 u) else PNone)
         | v \<Rightarrow> Inl (Exn ''TypeError'' ''expected str''), clock)),
     decoder_generate_playable_url = (\<lambda>url token clock.
        (case url of
           PStr u \<Rightarrow> Inr (PStr (u @ ''?sig=1''))
         | v \<Rightarrow> Inl (Exn ''TypeError'' ''expected str''), clock)),
     decoder_get_timestamp = (\<lambda>clock. (Inr (PInt (int clock)), Suc clock)) \<rparr>"

section \<open>Sample requests and their answers\<close>

definition expired_batch_request :: "exn + pyval" where
  "expired_batch_request =
     Inr (PDict [(''token'', PStr ''expired-token-X''),
                 (''urls'', PList [PDict [(''encrypted_url'', PStr ''enc:http://v/1'')]])])"

definition expired_validation :: event where
  "expired_validation = (ValidateToken (PStr ''expired-token-X''), Inr (PBool False))"

definition invalid_token_response :: response where
  "invalid_token_response =
     jsonify [(''error'', PStr ''Invalid or expired token''), (''code'', PStr ''INVALID_TOKEN'')] 401"

definition good_token_request :: "exn + pyval" where
  "good_token_request = Inr (PDict [(''token'', PStr ''good-token'')])"

definition good_validation :: event where
  "good_validation = (ValidateToken (PStr ''good-token''), Inr (PBool True))"

definition good_token_info :: "exn + pyval" where
  "good_token_info = Inr (PDict [(''user_id'', PStr ''u1'')])"

definition good_token_response :: response where
  "good_token_response =
     jsonify [(''valid'', PBool True),
              (''token_info'', PDict [(''user_id'', PStr ''u1'')]),
              (''timestamp'', PInt 0)] 200"

definition undecodable_request :: "exn + pyval" where
  "undecodable_request =
     Inr (PDict [(''token'', PStr ''good-token''), (''encrypted_url'', PStr ''zzz''),
                 (''video_id'', PStr ''v1'')])"

definition undecodable_call :: event where
  "undecodable_call = (DecodeUrl (PStr ''zzz'') (PStr ''good-token''), Inr PNone)"

definition decode_failed_response :: response where
  "decode_failed_response =
     jsonify [(''error'', PStr ''Failed to decode URL''), (''code'', PStr ''DECODE_FAILED'')] 400"

definition plain_args :: "(string \<times> string) list" where
  "plain_args = [(''url'', ''http://cdn/v.m3u8''), (''token'', ''good-token'')]"

definition plain_sign_call :: event where
  "plain_sign_call = (GeneratePlayableUrl (PStr ''http://cdn/v.m3u8'') (PStr ''good-token''),
                      Inr (PStr ''http://cdn/v.m3u8?sig=1''))"

definition plain_response :: response where
  "plain_response = jsonify [(''status'', PStr ''ok''), (''success'', PBool True),
                             (''url'', PStr ''http://cdn/v.m3u8?sig=1'')] 200"

definition five_urls :: "pyval list" where
  "five_urls =
     [PDict [(''encrypted_url'', PStr ''enc:http://v/1''), (''video_id'', PStr ''v1'')],
      PDict [(''encrypted_url'', PStr ''garbled''), (''video_id'', PStr ''v2'')],
      PDict [(''encrypted_url'', PStr ''enc:http://v/3''), (''video_id'', PStr ''v3'')],
      PDict [(''video_id'', PStr ''v4'')],
      PDict [(''encrypted_url'', PStr ''enc:http://v/5''), (''video_id'', PStr ''v5'')]]"

definition five_urls_data :: pyval where
  "five_urls_data = PDict [(''token'', PStr ''good-token''), (''urls'', PList five_urls)]"

definition failing_urls :: "pyval list" where
  "failing_urls =
     [PDict [(''encrypted_url'', PStr ''garbled''), (''video_id'', PStr ''v1'')],
      PDict [(''video_id'', PStr ''v2'')],
      PDict [(''encrypted_url'', PInt 7), (''video_id'', PStr ''v3'')]]"

definition failing_urls_data :: pyval where
  "failing_urls_data = PDict [(''token'', PStr ''good-token''), (''urls'', PList failing_urls)]"

definition mixed_urls :: "pyval list" where
  "mixed_urls =
     [PDict [(''encrypted_url'', PStr ''garbled''), (''video_id'', PStr ''first'')],
      PDict [(''encrypted_url'', PStr ''enc:http://v/2''), (''video_id'', PStr ''second'')]]"

definition mixed_urls_data :: pyval where
  "mixed_urls_data = PDict [(''token'', PStr ''good-token''), (''urls'', PList mixed_urls)]"

definition mixed_results :: "pyval list" where
  "mixed_results =
     [PDict [(''video_id'', PStr ''first''), (''success'', PBool False),
             (''error'', PStr ''Failed to decode URL'')],
      PDict [(''video_id'', PStr ''second''), (''success'', PBool True),
             (''video_url'', PStr ''http://v/2?sig=1''), (''decoded_url'', PStr ''http://v/2'')]]"

definition missing_url_data :: pyval where
  "missing_url_data = PDict [(''token'', PStr ''good-token'')]"

definition empty_urls_data :: pyval where
  "empty_urls_data = PDict [(''token'', PStr ''good-token''), (''urls'', PList [])]"

definition token_only_args :: "(string \<times> string) list" where
  "token_only_args = [(''token'', ''good-token'')]"

definition entry_without_url_data :: pyval where
  "entry_without_url_data = PDict [(''video_id'', PStr ''v4'')]"

lemmas fixture_defs =
  expired_batch_request_def
  expired_validation_def
  invalid_token_response_def
  good_token_request_def
  good_validation_def
  good_token_info_def
  good_token_response_def
  undecodable_request_def
  undecodable_call_def
  decode_failed_response_def
  plain_args_def
  plain_sign_call_def
  plain_response_def
  five_urls_def
  five_urls_data_def
  failing_urls_def
  failing_urls_data_def
  mixed_urls_def
  mixed_urls_data_def
  mixed_results_def
  missing_url_data_def
  empty_urls_data_def
  token_only_args_def
  entry_without_url_data_def

section \<open>Unfolding the handlers\<close>

lemmas io_defs = bind_io_def pure_io_def lift_io_def invoke_def handle_with_def
  call_validate_token_def call_get_token_info_def call_decode_url_def
  call_generate_playable_url_def call_get_timestamp_def

lemmas handler_defs =
  decode_video_url_def decode_video_url_try_def
  batch_decode_urls_def batch_decode_urls_try_def process_url_data_def
  validate_token_def validate_token_try_def
  decode_video_url_simple_def decode_video_url_simple_try_def args_get_def
  jsonify_def internal_error_def simple_error_def no_attribute_get_def quote_def Let_def

lemmas run_defs = handler_defs io_defs demo_core_def fixture_defs

section \<open>The calls of the batch loop\<close>

lemma process_url_data_trace:
  "process_url_data core token u (s, tr) = (r, (s', tr')) \<Longrightarrow>
     \<exists>new. tr' = tr @ new \<and> list_all (item_event token) new"
  by (auto simp: process_url_data_def io_defs split: sum.splits prod.splits if_splits)

lemma url_loop_trace:
  "url_loop core token us acc (s, tr) = (r, (s', tr')) \<Longrightarrow>
     \<exists>new. tr' = tr @ new \<and> list_all (item_event token) new"
proof (induction us arbitrary: acc s tr)
  case Nil
  then show ?case by simp
next
  case (Cons u us)
  obtain r1 s1 tr1 where step: "process_url_data core token u (s, tr) = (r1, (s1, tr1))"
    by (metis prod.exhaust)
  from process_url_data_trace[OF step] obtain new1 where
    n1: "tr1 = tr @ new1" "list_all (item_event token) new1" by blast
  have "(\<exists>acc'. url_loop core token us acc' (s1, tr1) = (r, (s', tr'))) \<or> tr' = tr1"
    using step Cons.prems by (auto split: sum.splits)
  then show ?case
  proof
    assume "\<exists>acc'. url_loop core token us acc' (s1, tr1) = (r, (s', tr'))"
    then obtain acc' where "url_loop core token us acc' (s1, tr1) = (r, (s', tr'))" ..
    from Cons.IH[OF this] obtain new2 where "tr' = tr1 @ new2" "list_all (item_event token) new2"
      by blast
    with n1 show ?thesis by auto
  next
    assume "tr' = tr1"
    with n1 show ?thesis by auto
  qed
qed

lemma item_event_imp_batch_event: "item_event token ev \<Longrightarrow> batch_event token ev"
  by (erule item_event.elims) auto

lemma item_event_batch_event:
  "list_all (item_event token) evs \<Longrightarrow> list_all (batch_event token) evs"
  by (simp add: list_all_iff item_event_imp_batch_event)

lemma batch_event_cases:
  "batch_event token (c, r) \<Longrightarrow>
     c = GetTimestamp \<or> (\<exists>u. c = DecodeUrl u token \<and> truthy u)
       \<or> (\<exists>u. c = GeneratePlayableUrl u token \<and> truthy u)"
  by (cases c) auto

section \<open>The token check comes first\<close>

lemma decode_gated:
  "decode_video_url core debug get_json (s, []) = (resp, (s', tr)) \<Longrightarrow> gated item_event resp tr"
  by (auto simp: gated_def decode_video_url_def decode_video_url_try_def io_defs jsonify_def
        internal_error_def split: sum.splits prod.splits if_splits)

lemma batch_gated:
  "batch_decode_urls core debug get_json (s, []) = (resp, (s', tr)) \<Longrightarrow> gated batch_event resp tr"
  by (auto simp: gated_def batch_decode_urls_def batch_decode_urls_try_def io_defs jsonify_def
        internal_error_def split: sum.splits prod.splits if_splits
        dest!: url_loop_trace item_event_batch_event)

lemma simple_gated:
  "decode_video_url_simple core args (s, []) = (resp, (s', tr)) \<Longrightarrow> gated item_event resp tr"
  by (auto simp: gated_def decode_video_url_simple_def decode_video_url_simple_try_def io_defs
        jsonify_def simple_error_def Let_def split: sum.splits prod.splits if_splits)

lemma gated_mono:
  "gated p resp tr \<Longrightarrow> (\<And>token ev. p token ev \<Longrightarrow> q token ev) \<Longrightarrow> gated q resp tr"
  unfolding gated_def list_all_iff by blast

lemma gated_falsy:
  assumes "gated batch_event resp tr" "(ValidateToken token, Inr v) \<in> set tr" "\<not> truthy v"
  shows "status resp = 401 \<and> tr = [(ValidateToken token, Inr v)]"
proof -
  have "\<And>t rest. list_all (batch_event t) rest \<Longrightarrow> (ValidateToken token, Inr v) \<notin> set rest"
    by (auto simp: list_all_iff dest: batch_event_cases)
  with assms show ?thesis
    unfolding gated_def by auto
qed

lemma gated_generate:
  assumes "gated batch_event resp tr" "(GeneratePlayableUrl url token, r) \<in> set tr"
  shows "\<exists>v rest. tr = (ValidateToken token, Inr v) # rest \<and> truthy v"
proof -
  have "\<And>t rest. list_all (batch_event t) rest \<Longrightarrow>
          (GeneratePlayableUrl url token, r) \<in> set rest \<Longrightarrow> t = token"
    by (auto simp: list_all_iff dest: batch_event_cases)
  with assms show ?thesis
    unfolding gated_def by auto
qed

text \<open>
  Claim C1. In \<^verbatim>\<open>/api/decode\<close> and \<^verbatim>\<open>/api/batch-decode\<close>, when
  \<^verbatim>\<open>validate_token(token)\<close> returns a false value the answer is 401 and that validation is
  the only core call of the request, so neither \<^verbatim>\<open>decode_url\<close> nor
  \<^verbatim>\<open>generate_playable_url\<close> is invoked; and whenever \<^verbatim>\<open>generate_playable_url\<close> is
  invoked with a token, the request began with a validation of that same token that
  returned a true value.
\<close>

theorem invalid_token_short_circuits:
  assumes "handler = decode_video_url \<or> handler = batch_decode_urls"
    and "handler core debug get_json (s, []) = (resp, (s', tr))"
  shows "(\<forall>token v. (ValidateToken token, Inr v) \<in> set tr \<and> \<not> truthy v \<longrightarrow>
            status resp = 401 \<and> tr = [(ValidateToken token, Inr v)])
       \<and> (\<forall>url token r. (GeneratePlayableUrl url token, r) \<in> set tr \<longrightarrow>
            (\<exists>v rest. tr = (ValidateToken token, Inr v) # rest \<and> truthy v))"
proof -
  from assms(1) have shape: "gated batch_event resp tr"
  proof
    assume "handler = decode_video_url"
    with assms(2) have "gated item_event resp tr" by (simp add: decode_gated)
    then show ?thesis by (rule gated_mono) (rule item_event_imp_batch_event)
  next
    assume "handler = batch_decode_urls"
    with assms(2) show ?thesis by (simp add: batch_gated)
  qed
  show ?thesis
    using gated_falsy[OF shape] gated_generate[OF shape] by blast
qed

theorem invalid_token_short_circuits_witness:
  "batch_decode_urls demo_core False expired_batch_request (0, [])
     = (invalid_token_response, (0, [expired_validation]))
   \<and> expired_validation = (ValidateToken (PStr ''expired-token-X''), Inr (PBool False))
   \<and> \<not> truthy (PBool False)
   \<and> status invalid_token_response = 401"
proof -
  have run: "batch_decode_urls demo_core False expired_batch_request (0, [])
     = (invalid_token_response, (0, [expired_validation]))"
    by (simp add: run_defs)
  have "status invalid_token_response = 401
      \<and> [expired_validation] = [(ValidateToken (PStr ''expired-token-X''), Inr (PBool False))]"
    by (rule invalid_token_short_circuits
          [OF disjI2[OF refl] run, THEN conjunct1, rule_format])
       (simp add: expired_validation_def)
  with run show ?thesis by simp
qed

section \<open>Token metadata is read only for a validated token\<close>

lemma gated_no_token_info:
  assumes "gated batch_event resp tr"
  shows "(GetTokenInfo token, r) \<notin> set tr"
proof -
  have "\<And>t rest. list_all (batch_event t) rest \<Longrightarrow> (GetTokenInfo token, r) \<notin> set rest"
    by (auto simp: list_all_iff dest: batch_event_cases)
  with assms show ?thesis
    unfolding gated_def by auto
qed

lemma validate_token_calls:
  assumes "validate_token core debug get_json (s, []) = (resp, (s', tr))"
  shows "tr = []
       \<or> (\<exists>token e. tr = [(ValidateToken token, Inl e)])
       \<or> (\<exists>token v ts. \<not> truthy v \<and> tr = [(ValidateToken token, Inr v), (GetTimestamp, ts)])
       \<or> (\<exists>token v r. truthy v \<and> tr = [(ValidateToken token, Inr v), (GetTokenInfo token, r)])
       \<or> (\<exists>token v r ts. truthy v \<and>
             tr = [(ValidateToken token, Inr v), (GetTokenInfo token, r), (GetTimestamp, ts)])"
  using assms
  by (auto simp: validate_token_def validate_token_try_def io_defs
        split: sum.splits prod.splits if_splits)

lemma validate_token_guarded:
  assumes "validate_token core debug get_json (s, []) = (resp, (s', tr))"
  shows "(\<forall>pre post token r. tr = pre @ (GetTokenInfo token, r) # post \<longrightarrow>
            (\<exists>v. (ValidateToken token, Inr v) \<in> set pre \<and> truthy v))
       \<and> (\<forall>token v t r. (ValidateToken token, Inr v) \<in> set tr \<and> \<not> truthy v \<longrightarrow>
            (GetTokenInfo t, r) \<notin> set tr)"
  using validate_token_calls[OF assms]
  by (elim disjE exE conjE) (auto simp: Cons_eq_append_conv append_eq_Cons_conv)

text \<open>
  Claim C2. In every handler that calls the core, a call of \<^verbatim>\<open>get_token_info(token)\<close> is
  preceded, in the same request, by a call of \<^verbatim>\<open>validate_token\<close> on the same token that
  returned a true value; and in a request where a validation returned a false value,
  \<^verbatim>\<open>get_token_info\<close> is not called at all. (The remaining functions of \<^verbatim>\<open>app.py\<close>,
  \<^verbatim>\<open>index\<close>, \<^verbatim>\<open>api_docs\<close> and the two error handlers, do not mention the core.)
\<close>

theorem token_info_only_after_validation:
  assumes "run = decode_video_url core debug get_json (s, [])
         \<or> run = batch_decode_urls core debug get_json (s, [])
         \<or> run = validate_token core debug get_json (s, [])
         \<or> run = decode_video_url_simple core args (s, [])"
    and "tr = snd (snd run)"
  shows "(\<forall>pre post token r. tr = pre @ (GetTokenInfo token, r) # post \<longrightarrow>
            (\<exists>v. (ValidateToken token, Inr v) \<in> set pre \<and> truthy v))
       \<and> (\<forall>token v t r. (ValidateToken token, Inr v) \<in> set tr \<and> \<not> truthy v \<longrightarrow>
            (GetTokenInfo t, r) \<notin> set tr)"
proof -
  obtain resp s' where run: "run = (resp, (s', tr))"
    using assms(2) by (metis prod.collapse)
  from assms(1) consider
      (gated) "gated batch_event resp tr"
    | (validate) "validate_token core debug get_json (s, []) = (resp, (s', tr))"
  proof (elim disjE)
    assume "run = decode_video_url core debug get_json (s, [])"
    with run have "gated item_event resp tr" by (simp add: decode_gated)
    then have "gated batch_event resp tr" by (rule gated_mono) (rule item_event_imp_batch_event)
    then show ?thesis by (rule that(1))
  next
    assume "run = batch_decode_urls core debug get_json (s, [])"
    with run have "gated batch_event resp tr" by (simp add: batch_gated)
    then show ?thesis by (rule that(1))
  next
    assume "run = validate_token core debug get_json (s, [])"
    with run show ?thesis by (simp add: that(2))
  next
    assume "run = decode_video_url_simple core args (s, [])"
    with run have "gated item_event resp tr" by (simp add: simple_gated)
    then have "gated batch_event resp tr" by (rule gated_mono) (rule item_event_imp_batch_event)
    then show ?thesis by (rule that(1))
  qed
  then show ?thesis
  proof cases
    case gated
    then have none: "\<And>token r. (GetTokenInfo token, r) \<notin> set tr"
      by (rule gated_no_token_info)
    have "\<And>pre post token r. tr \<noteq> pre @ (GetTokenInfo token, r) # post"
    proof
      fix pre post token r
      assume "tr = pre @ (GetTokenInfo token, r) # post"
      then have "(GetTokenInfo token, r) \<in> set tr" by simp
      with none show False by blast
    qed
    with none show ?thesis by blast
  next
    case validate
    then show ?thesis by (rule validate_token_guarded)
  qed
qed

theorem token_info_only_after_validation_witness:
  "validate_token demo_core False good_token_request (0, [])
     = (good_token_response,
        (1, [good_validation] @ (GetTokenInfo (PStr ''good-token''), good_token_info)
               # [(GetTimestamp, Inr (PInt 0))]))
   \<and> good_validation \<in> set [good_validation]
   \<and> good_validation = (ValidateToken (PStr ''good-token''), Inr (PBool True))
   \<and> truthy (PBool True)"
proof -
  have run: "validate_token demo_core False good_token_request (0, [])
     = (good_token_response,
        (1, [good_validation] @ (GetTokenInfo (PStr ''good-token''), good_token_info)
               # [(GetTimestamp, Inr (PInt 0))]))"
    by (simp add: run_defs)
  have tr: "[good_validation] @ (GetTokenInfo (PStr ''good-token''), good_token_info)
               # [(GetTimestamp, Inr (PInt 0))]
      = snd (snd (validate_token demo_core False good_token_request (0, [])))"
    by (simp only: run snd_conv)
  have "\<exists>v. (ValidateToken (PStr ''good-token''), Inr v) \<in> set [good_validation] \<and> truthy v"
    by (rule token_info_only_after_validation
          [OF disjI2[OF disjI2[OF disjI1[OF refl]]] tr, THEN conjunct1, rule_format, OF refl])
  with run show ?thesis by (simp add: good_validation_def)
qed

section \<open>A URL that does not decode\<close>

lemma decode_calls:
  assumes "decode_video_url core debug get_json (s, []) = (resp, (s', tr))"
  shows "(tr = [] \<and> (status resp = 400 \<or> status resp = 500))
       \<or> (\<exists>token e. tr = [(ValidateToken token, Inl e)] \<and> status resp = 500)
       \<or> (\<exists>token v. tr = [(ValidateToken token, Inr v)] \<and> \<not> truthy v \<and> status resp = 401)
       \<or> (\<exists>token v u e. tr = [(ValidateToken token, Inr v), (DecodeUrl u token, Inl e)]
             \<and> truthy v \<and> truthy u \<and> status resp = 500)
       \<or> (\<exists>token v u d. tr = [(ValidateToken token, Inr v), (DecodeUrl u token, Inr d)]
             \<and> truthy v \<and> truthy u \<and> \<not> truthy d
             \<and> resp = jsonify [(''error'', PStr ''Failed to decode URL''),
                                (''code'', PStr ''DECODE_FAILED'')] 400)
       \<or> (\<exists>token v u d r. tr = [(ValidateToken token, Inr v), (DecodeUrl u token, Inr d),
                                  (GeneratePlayableUrl d token, r)]
             \<and> truthy v \<and> truthy u \<and> truthy d)"
  using assms
  by (auto simp: decode_video_url_def decode_video_url_try_def io_defs jsonify_def
        internal_error_def split: sum.splits prod.splits if_splits)

text \<open>
  Claim C4. When \<^verbatim>\<open>decode_url(encrypted_url, token)\<close> returns a false value (the empty
  string or \<^verbatim>\<open>None\<close>), \<^verbatim>\<open>/api/decode\<close> answers 400 with the code
  \<^verbatim>\<open>DECODE_FAILED\<close>: the request consists of the validation and that one decoder call,
  nothing is raised and the answer is not the 500 of the \<^verbatim>\<open>except\<close> clause.
\<close>

theorem decode_failure_is_client_error:
  assumes "decode_video_url core debug get_json (s, []) = (resp, (s', tr))"
    and "(DecodeUrl encrypted_url token, Inr decoded) \<in> set tr"
    and "\<not> truthy decoded"
  shows "resp = jsonify [(''error'', PStr ''Failed to decode URL''),
                         (''code'', PStr ''DECODE_FAILED'')] 400
       \<and> status resp = 400
       \<and> (\<exists>v. tr = [(ValidateToken token, Inr v), (DecodeUrl encrypted_url token, Inr decoded)])"
  using decode_calls[OF assms(1)] assms(2,3)
  by (elim disjE exE conjE) (auto simp: jsonify_def)

theorem decode_failure_is_client_error_witness:
  "decode_video_url demo_core False undecodable_request (0, [])
     = (decode_failed_response, (0, [good_validation, undecodable_call]))
   \<and> undecodable_call = (DecodeUrl (PStr ''zzz'') (PStr ''good-token''), Inr PNone)
   \<and> \<not> truthy PNone
   \<and> status decode_failed_response = 400"
proof -
  have run: "decode_video_url demo_core False undecodable_request (0, [])
     = (decode_failed_response, (0, [good_validation, undecodable_call]))"
    by (simp add: run_defs)
  have "(DecodeUrl (PStr ''zzz'') (PStr ''good-token''), Inr PNone)
          \<in> set [good_validation, undecodable_call]"
    by (simp add: undecodable_call_def)
  from decode_failure_is_client_error[OF run this]
  have "status decode_failed_response = 400" by simp
  with run show ?thesis by (simp add: undecodable_call_def)
qed

section \<open>Signing without decoding\<close>

lemma simple_success:
  assumes "map_of args ''url'' = Some url" "url \<noteq> []"
    "map_of args ''token'' = Some token" "token \<noteq> []"
    "client_validate_token core (PStr token) s = (Inr v, s1)" "truthy v"
    "decoder_generate_playable_url core (PStr url) (PStr token) s1 = (Inr playable, s2)"
  shows "decode_video_url_simple core args (s, []) =
     (jsonify [(''status'', PStr ''ok''), (''success'', PBool True), (''url'', playable)] 200,
      (s2, [(ValidateToken (PStr token), Inr v),
            (GeneratePlayableUrl (PStr url) (PStr token), Inr playable)]))"
  using assms
  by (simp add: decode_video_url_simple_def decode_video_url_simple_try_def io_defs
        args_get_def Let_def)

lemma simple_no_decode:
  assumes "decode_video_url_simple core args (s, []) = (resp, (s', tr))"
  shows "(DecodeUrl encrypted_url token, r) \<notin> set tr"
  using assms
  by (auto simp: decode_video_url_simple_def decode_video_url_simple_try_def io_defs
        Let_def split: sum.splits prod.splits if_splits)

text \<open>
  Claim C7. \<^verbatim>\<open>GET /api\<close> never calls \<^verbatim>\<open>decode_url\<close>; with a non-empty \<^verbatim>\<open>url\<close>
  and \<^verbatim>\<open>token\<close>, a token that validates and a signer that returns, its only core calls
  are the validation and \<^verbatim>\<open>generate_playable_url\<close> on the URL exactly as it was
  submitted, and the answer is 200 with the signed URL.
\<close>

theorem simple_entry_signs_without_decoding:
  assumes "decode_video_url_simple core args (s, []) = (resp, (s', tr))"
  shows "(\<forall>encrypted_url token r. (DecodeUrl encrypted_url token, r) \<notin> set tr)
       \<and> (\<forall>url token v s1 playable s2.
            map_of args ''url'' = Some url \<and> url \<noteq> [] \<and>
            map_of args ''token'' = Some token \<and> token \<noteq> [] \<and>
            client_validate_token core (PStr token) s = (Inr v, s1) \<and> truthy v \<and>
            decoder_generate_playable_url core (PStr url) (PStr token) s1 = (Inr playable, s2)
            \<longrightarrow> resp = jsonify [(''status'', PStr ''ok''), (''success'', PBool True),
                                 (''url'', playable)] 200
              \<and> s' = s2
              \<and> tr = [(ValidateToken (PStr token), Inr v),
                       (GeneratePlayableUrl (PStr url) (PStr token), Inr playable)])"
proof (intro conjI allI impI)
  fix encrypted_url token r
  show "(DecodeUrl encrypted_url token, r) \<notin> set tr"
    using assms by (rule simple_no_decode)
next
  fix url token v s1 playable s2
  assume h: "map_of args ''url'' = Some url \<and> url \<noteq> [] \<and>
            map_of args ''token'' = Some token \<and> token \<noteq> [] \<and>
            client_validate_token core (PStr token) s = (Inr v, s1) \<and> truthy v \<and>
            decoder_generate_playable_url core (PStr url) (PStr token) s1 = (Inr playable, s2)"
  then have "map_of args ''url'' = Some url" "url \<noteq> []"
    "map_of args ''token'' = Some token" "token \<noteq> []"
    "client_validate_token core (PStr token) s = (Inr v, s1)" "truthy v"
    "decoder_generate_playable_url core (PStr url) (PStr token) s1 = (Inr playable, s2)"
    by blast+
  from simple_success[OF this] assms show "resp = jsonify [(''status'', PStr ''ok''), (''success'', PBool True),
                                 (''url'', playable)] 200"
    and "s' = s2"
    and "tr = [(ValidateToken (PStr token), Inr v),
               (GeneratePlayableUrl (PStr url) (PStr token), Inr playable)]"
    by simp_all
qed

theorem simple_entry_signs_without_decoding_witness:
  "decode_video_url_simple demo_core plain_args (0, [])
     = (plain_response, (0, [good_validation, plain_sign_call]))
   \<and> map_of plain_args ''url'' = Some ''http://cdn/v.m3u8'' \<and> ''http://cdn/v.m3u8'' \<noteq> []
   \<and> map_of plain_args ''token'' = Some ''good-token'' \<and> ''good-token'' \<noteq> []
   \<and> client_validate_token demo_core (PStr ''good-token'') 0 = (Inr (PBool True), 0)
   \<and> truthy (PBool True)
   \<and> decoder_generate_playable_url demo_core (PStr ''http://cdn/v.m3u8'') (PStr ''good-token'') 0
        = (Inr (PStr ''http://cdn/v.m3u8?sig=1''), 0)
   \<and> [good_validation, plain_sign_call]
        = [(ValidateToken (PStr ''good-token''), Inr (PBool True)),
           (GeneratePlayableUrl (PStr ''http://cdn/v.m3u8'') (PStr ''good-token''),
            Inr (PStr ''http://cdn/v.m3u8?sig=1''))]
   \<and> (DecodeUrl (PStr ''http://cdn/v.m3u8'') (PStr ''good-token''), Inr PNone)
        \<notin> set [good_validation, plain_sign_call]"
proof -
  have run: "decode_video_url_simple demo_core plain_args (0, [])
     = (plain_response, (0, [good_validation, plain_sign_call]))"
    by (simp add: run_defs)
  have hyps: "map_of plain_args ''url'' = Some ''http://cdn/v.m3u8'' \<and> ''http://cdn/v.m3u8'' \<noteq> []
   \<and> map_of plain_args ''token'' = Some ''good-token'' \<and> ''good-token'' \<noteq> []
   \<and> client_validate_token demo_core (PStr ''good-token'') 0 = (Inr (PBool True), 0)
   \<and> truthy (PBool True)
   \<and> decoder_generate_playable_url demo_core (PStr ''http://cdn/v.m3u8'') (PStr ''good-token'') 0
        = (Inr (PStr ''http://cdn/v.m3u8?sig=1''), 0)"
    by (simp add: demo_core_def plain_args_def)
  note claim = simple_entry_signs_without_decoding[OF run]
  have none: "(DecodeUrl (PStr ''http://cdn/v.m3u8'') (PStr ''good-token''), Inr PNone)
        \<notin> set [good_validation, plain_sign_call]"
    by (rule claim[THEN conjunct1, rule_format])
  have calls: "[good_validation, plain_sign_call]
        = [(ValidateToken (PStr ''good-token''), Inr (PBool True)),
           (GeneratePlayableUrl (PStr ''http://cdn/v.m3u8'') (PStr ''good-token''),
            Inr (PStr ''http://cdn/v.m3u8?sig=1''))]"
    using claim[THEN conjunct2, rule_format, OF hyps] by (simp only: simp_thms)
  from run hyps none calls show ?thesis by (simp only: simp_thms)
qed

section \<open>The entries written by the batch loop\<close>

lemma process_url_data_entry:
  "process_url_data core token u st = (Inr r, st') \<Longrightarrow> result_entry u r"
  by (cases u)
     (auto simp: process_url_data_def io_defs result_entry_def no_attribute_get_def
        split: sum.splits prod.splits if_splits)

lemma url_loop_step:
  "url_loop core token (u # us) acc st = (r, st') \<Longrightarrow>
     (\<exists>entry st1. result_entry u entry \<and> url_loop core token us (acc @ [entry]) st1 = (r, st'))
     \<or> (\<not> is_dict u \<and> (\<exists>e. r = Inl e))"
proof -
  assume run: "url_loop core token (u # us) acc st = (r, st')"
  obtain r1 st1 where step: "process_url_data core token u st = (r1, st1)"
    by (metis prod.exhaust)
  show ?thesis
  proof (cases r1)
    case (Inr entry)
    with step have "result_entry u entry" by (auto dest: process_url_data_entry)
    moreover from run step Inr have "url_loop core token us (acc @ [entry]) st1 = (r, st')"
      by simp
    ultimately show ?thesis by blast
  next
    case (Inl e)
    show ?thesis
    proof (cases u)
      case (PDict kvs)
      let ?entry = "PDict [(''video_id'', case map_of kvs ''video_id'' of None \<Rightarrow> PNone | Some v \<Rightarrow> v),
                           (''success'', PBool False), (''error'', PStr (exn_str e))]"
      have "result_entry u ?entry" by (auto simp: result_entry_def PDict)
      moreover from run step Inl PDict
      have "url_loop core token us (acc @ [?entry]) st1 = (r, st')" by simp
      ultimately show ?thesis by blast
    qed (use run step Inl in \<open>auto\<close>)
  qed
qed

lemma url_loop_entries:
  "url_loop core token us acc st = (Inr rs, st') \<Longrightarrow>
     \<exists>results. rs = acc @ results \<and> list_all2 result_entry us results"
proof (induction us arbitrary: acc st)
  case Nil
  then show ?case by simp
next
  case (Cons u us)
  from url_loop_step[OF Cons.prems] obtain entry st1 where
    e: "result_entry u entry" "url_loop core token us (acc @ [entry]) st1 = (Inr rs, st')"
    by auto
  from Cons.IH[OF e(2)] obtain results where
    "rs = (acc @ [entry]) @ results" "list_all2 result_entry us results" by blast
  with e(1) show ?case by (intro exI[of _ "entry # results"]) simp
qed

lemma url_loop_dicts:
  "list_all is_dict us \<Longrightarrow> \<exists>rs st'. url_loop core token us acc st = (Inr rs, st')"
proof (induction us arbitrary: acc st)
  case Nil
  then show ?case by simp
next
  case (Cons u us)
  obtain r st' where run: "url_loop core token (u # us) acc st = (r, st')"
    by (metis prod.exhaust)
  from Cons.prems have d: "is_dict u" "list_all is_dict us" by simp_all
  from url_loop_step[OF run] d(1) obtain entry st1 where
    "url_loop core token us (acc @ [entry]) st1 = (r, st')" by auto
  with Cons.IH[OF d(2), of "acc @ [entry]" st1] run show ?case by auto
qed

lemma successful_results_entries:
  "list_all2 result_entry us rs \<Longrightarrow> successful_results rs = Inr (filter success_flag rs)"
  by (induction us rs rule: list_all2_induct) (auto simp: result_entry_def success_flag_def)

lemma url_loop_append:
  "url_loop core token (xs @ ys) acc st =
     (case url_loop core token xs acc st of
        (Inl e, st') \<Rightarrow> (Inl e, st')
      | (Inr rs, st1) \<Rightarrow> url_loop core token ys rs st1)"
  by (induction xs arbitrary: acc st) (auto split: prod.splits sum.splits)

lemma url_loop_acc:
  "url_loop core token us acc st =
     (case url_loop core token us [] st of
        (Inl e, st') \<Rightarrow> (Inl e, st')
      | (Inr rs, st') \<Rightarrow> (Inr (acc @ rs), st'))"
proof (induction us arbitrary: acc st rule: rev_induct)
  case Nil
  then show ?case by simp
next
  case (snoc u us)
  have one: "\<And>a w. url_loop core token [u] a w =
     (case url_loop core token [u] [] w of
        (Inl e, st') \<Rightarrow> (Inl e, st')
      | (Inr rs, st') \<Rightarrow> (Inr (a @ rs), st'))"
    by (auto split: prod.splits sum.splits)
  show ?case
    unfolding url_loop_append
    by (subst snoc.IH) (auto simp: one[of "_ @ _"] split: prod.splits sum.splits)
qed

lemma url_loop_nth:
  assumes run: "url_loop core token us [] st = (Inr results, st')" and i: "i < length us"
  shows "\<exists>st_i st_i'. url_loop core token (take i us) [] st = (Inr (take i results), st_i)
           \<and> url_loop core token [us ! i] [] st_i = (Inr [results ! i], st_i')
           \<and> result_entry (us ! i) (results ! i)"
proof -
  have us: "us = take i us @ ([us ! i] @ drop (Suc i) us)"
    using i by (simp add: id_take_nth_drop[symmetric])
  from run have "url_loop core token (take i us @ ([us ! i] @ drop (Suc i) us)) [] st = (Inr results, st')"
    using us by simp
  then obtain r1 st_i r2 st_i' where
    p1: "url_loop core token (take i us) [] st = (Inr r1, st_i)" and
    p2: "url_loop core token [us ! i] r1 st_i = (Inr r2, st_i')" and
    p3: "url_loop core token (drop (Suc i) us) r2 st_i' = (Inr results, st')"
    unfolding url_loop_append by (auto split: prod.splits sum.splits)
  from url_loop_entries[OF p1] have l1: "length r1 = i"
    using i by (auto dest: list_all2_lengthD)
  from url_loop_entries[OF p2] obtain e where e: "r2 = r1 @ [e]" "result_entry (us ! i) e"
    by (auto simp: list_all2_Cons1)
  from url_loop_entries[OF p3] obtain r3 where r3: "results = r2 @ r3" by blast
  have t: "take i results = r1" and n: "results ! i = e"
    using l1 e(1) r3 by (simp_all add: nth_append)
  have "url_loop core token [us ! i] [] st_i = (Inr [e], st_i')"
    using p2 e(1) by (subst (asm) url_loop_acc) (auto split: prod.splits sum.splits)
  with p1 t n e(2) show ?thesis by auto
qed

section \<open>The answer to a batch\<close>

lemma py_get_truthy: "py_get data k PNone = Inr v \<Longrightarrow> truthy v \<Longrightarrow> truthy data"
  by (cases data) (auto split: option.splits)

lemma batch_ok:
  assumes tok: "py_get data ''token'' PNone = Inr token" "truthy token"
    and urls: "py_get data ''urls'' (PList []) = Inr (PList urls)" "urls \<noteq> []"
    and dicts: "list_all is_dict urls"
    and valid: "client_validate_token core token s = (Inr v, s1)" "truthy v"
    and clock: "\<forall>w. \<not> isl (fst (decoder_get_timestamp core w))"
  shows "\<exists>results timestamp st'.
           batch_decode_urls core debug (Inr data) (s, [])
             = (jsonify [(''success'', PBool True),
                         (''results'', PList results),
                         (''total'', PInt (int (length urls))),
                         (''successful'', PInt (int (length (filter success_flag results)))),
                         (''timestamp'', timestamp)] 200, st')
         \<and> list_all2 result_entry urls results"
proof -
  have data: "truthy data" using tok by (rule py_get_truthy)
  from url_loop_dicts[OF dicts] obtain results s2 tr2 where
    loop: "url_loop core token urls [] (s1, [(ValidateToken token, Inr v)]) = (Inr results, (s2, tr2))"
    by (metis prod.exhaust)
  from url_loop_entries[OF loop] have ent: "list_all2 result_entry urls results" by simp
  then have succ: "successful_results results = Inr (filter success_flag results)"
    by (rule successful_results_entries)
  from clock obtain timestamp s3 where ts: "decoder_get_timestamp core s2 = (Inr timestamp, s3)"
    by (metis isl_def prod.collapse sum.collapse(2))
  have "batch_decode_urls core debug (Inr data) (s, [])
             = (jsonify [(''success'', PBool True),
                         (''results'', PList results),
                         (''total'', PInt (int (length urls))),
                         (''successful'', PInt (int (length (filter success_flag results)))),
                         (''timestamp'', timestamp)] 200, (s3, tr2 @ [(GetTimestamp, Inr timestamp)]))"
    using data tok urls valid loop succ ts
    by (simp add: batch_decode_urls_def batch_decode_urls_try_def io_defs)
  with ent show ?thesis by blast
qed

lemma batch_200:
  assumes "batch_decode_urls core debug get_json (s, []) = (resp, st')" "status resp = 200"
  shows "\<exists>data token urls v s1 results st2 timestamp.
           get_json = Inr data
         \<and> py_get data ''token'' PNone = Inr token
         \<and> py_get data ''urls'' (PList []) = Inr (PList urls)
         \<and> client_validate_token core token s = (Inr v, s1) \<and> truthy v
         \<and> url_loop core token urls [] (s1, [(ValidateToken token, Inr v)]) = (Inr results, st2)
         \<and> resp = jsonify [(''success'', PBool True),
                         (''results'', PList results),
                         (''total'', PInt (int (length urls))),
                         (''successful'', PInt (int (length (filter success_flag results)))),
                         (''timestamp'', timestamp)] 200"
proof -
  from assms obtain data token urls v s1 results st2 successful timestamp where
    f: "get_json = Inr data" "py_get data ''token'' PNone = Inr token"
       "py_get data ''urls'' (PList []) = Inr urls" "isinstance_list urls"
       "client_validate_token core token s = (Inr v, s1)" "truthy v"
       "url_loop core token (list_items urls) [] (s1, [(ValidateToken token, Inr v)]) = (Inr results, st2)"
       "successful_results results = Inr successful"
       "resp = jsonify [(''success'', PBool True),
                         (''results'', PList results),
                         (''total'', PInt (int (length (list_items urls)))),
                         (''successful'', PInt (int (length successful))),
                         (''timestamp'', timestamp)] 200"
    by (auto simp: batch_decode_urls_def batch_decode_urls_try_def io_defs jsonify_def
          internal_error_def split: sum.splits prod.splits if_splits)
  from f(4) obtain us where us: "urls = PList us" by (cases urls) auto
  from url_loop_entries[OF f(7)] have "list_all2 result_entry (list_items urls) results" by simp
  from successful_results_entries[OF this] f(8) have "successful = filter success_flag results"
    by simp
  with f us show ?thesis by auto
qed

text \<open>
  Claim C6. For a batch request whose payload is an object with a true token and a
  non-empty list of objects as \<^verbatim>\<open>urls\<close>, whose token validates, and with a clock that
  returns, the answer's \<^verbatim>\<open>total\<close> is the number of submitted entries and its
  \<^verbatim>\<open>successful\<close> is the number of entries of \<^verbatim>\<open>results\<close> whose \<^verbatim>\<open>success\<close> flag is
  true.
\<close>

theorem batch_counts:
  assumes run: "batch_decode_urls core debug (Inr data) (s, []) = (resp, st')"
    and tok: "py_get data ''token'' PNone = Inr token" "truthy token"
    and urls: "py_get data ''urls'' (PList []) = Inr (PList urls)" "urls \<noteq> []"
    and dicts: "list_all is_dict urls"
    and valid: "client_validate_token core token s = (Inr v, s1)" "truthy v"
    and clock: "\<forall>w. \<not> isl (fst (decoder_get_timestamp core w))"
  shows "py_get (body resp) ''total'' PNone = Inr (PInt (int (length urls)))
       \<and> (\<exists>results. py_get (body resp) ''results'' PNone = Inr (PList results)
            \<and> py_get (body resp) ''successful'' PNone
                = Inr (PInt (int (length (filter success_flag results)))))"
  using batch_ok[OF tok urls dicts valid clock, of debug] run
  by (auto simp: jsonify_def)

theorem batch_counts_witness:
  "py_get five_urls_data ''token'' PNone = Inr (PStr ''good-token'')
   \<and> py_get five_urls_data ''urls'' (PList []) = Inr (PList five_urls)
   \<and> length five_urls = 5
   \<and> list_all is_dict five_urls
   \<and> client_validate_token demo_core (PStr ''good-token'') 0 = (Inr (PBool True), 0)
   \<and> py_get (body (fst (batch_decode_urls demo_core False (Inr five_urls_data) (0, []))))
        ''total'' PNone = Inr (PInt 5)
   \<and> py_get (body (fst (batch_decode_urls demo_core False (Inr five_urls_data) (0, []))))
        ''successful'' PNone = Inr (PInt 3)"
proof -
  have h1: "py_get five_urls_data ''token'' PNone = Inr (PStr ''good-token'')"
    and h2: "truthy (PStr ''good-token'')"
    and h3: "py_get five_urls_data ''urls'' (PList []) = Inr (PList five_urls)"
    and h4: "five_urls \<noteq> []"
    and h5: "list_all is_dict five_urls"
    and h6: "client_validate_token demo_core (PStr ''good-token'') 0 = (Inr (PBool True), 0)"
    and h7: "truthy (PBool True)"
    and h8: "\<forall>w. \<not> isl (fst (decoder_get_timestamp demo_core w))"
    and len: "length five_urls = 5"
    by (simp_all add: five_urls_data_def five_urls_def demo_core_def)
  have total: "py_get (body (fst (batch_decode_urls demo_core False (Inr five_urls_data) (0, []))))
        ''total'' PNone = Inr (PInt (int (length five_urls)))"
    using batch_counts[OF surjective_pairing h1 h2 h3 h4 h5 h6 h7 h8] by (rule conjunct1)
  have succ: "py_get (body (fst (batch_decode_urls demo_core False (Inr five_urls_data) (0, []))))
        ''successful'' PNone = Inr (PInt 3)"
    by (simp add: run_defs)
  from h1 h3 h5 h6 len total succ show ?thesis by simp
qed

text \<open>
  Claim C9. Under the same conditions the answer has status 200 and \<^verbatim>\<open>success\<close> true,
  whatever happens to the single entries: nothing is assumed about what the decoder
  returns or raises.
\<close>

theorem batch_top_level_success:
  assumes run: "batch_decode_urls core debug (Inr data) (s, []) = (resp, st')"
    and tok: "py_get data ''token'' PNone = Inr token" "truthy token"
    and urls: "py_get data ''urls'' (PList []) = Inr (PList urls)" "urls \<noteq> []"
    and dicts: "list_all is_dict urls"
    and valid: "client_validate_token core token s = (Inr v, s1)" "truthy v"
    and clock: "\<forall>w. \<not> isl (fst (decoder_get_timestamp core w))"
  shows "status resp = 200 \<and> py_get (body resp) ''success'' PNone = Inr (PBool True)"
  using batch_ok[OF tok urls dicts valid clock, of debug] run
  by (auto simp: jsonify_def)

theorem batch_top_level_success_witness:
  "list_all is_dict failing_urls
   \<and> client_validate_token demo_core (PStr ''good-token'') 0 = (Inr (PBool True), 0)
   \<and> status (fst (batch_decode_urls demo_core False (Inr failing_urls_data) (0, []))) = 200
   \<and> py_get (body (fst (batch_decode_urls demo_core False (Inr failing_urls_data) (0, []))))
        ''success'' PNone = Inr (PBool True)
   \<and> py_get (body (fst (batch_decode_urls demo_core False (Inr failing_urls_data) (0, []))))
        ''successful'' PNone = Inr (PInt 0)"
proof -
  have h1: "py_get failing_urls_data ''token'' PNone = Inr (PStr ''good-token'')"
    and h2: "truthy (PStr ''good-token'')"
    and h3: "py_get failing_urls_data ''urls'' (PList []) = Inr (PList failing_urls)"
    and h4: "failing_urls \<noteq> []"
    and h5: "list_all is_dict failing_urls"
    and h6: "client_validate_token demo_core (PStr ''good-token'') 0 = (Inr (PBool True), 0)"
    and h7: "truthy (PBool True)"
    and h8: "\<forall>w. \<not> isl (fst (decoder_get_timestamp demo_core w))"
    by (simp_all add: failing_urls_data_def failing_urls_def demo_core_def)
  note ok = batch_top_level_success[OF surjective_pairing h1 h2 h3 h4 h5 h6 h7 h8]
  have none: "py_get (body (fst (batch_decode_urls demo_core False (Inr failing_urls_data) (0, []))))
        ''successful'' PNone = Inr (PInt 0)"
    by (simp add: run_defs)
  from h5 h6 ok none show ?thesis by simp
qed

text \<open>
  Claim C10. Whenever \<^verbatim>\<open>/api/batch-decode\<close> answers 200, \<^verbatim>\<open>results\<close> has exactly one
  entry for each element of \<^verbatim>\<open>urls\<close>, in the order of \<^verbatim>\<open>urls\<close>: entry \<open>i\<close> carries the
  \<^verbatim>\<open>video_id\<close> of element \<open>i\<close> and is exactly what the loop writes when it is run on
  element \<open>i\<close> alone, from the state the first \<open>i\<close> elements left behind.
\<close>

theorem batch_results_follow_urls:
  assumes run: "batch_decode_urls core debug (Inr data) (s, []) = (resp, st')"
    and ok: "status resp = 200"
    and tok: "py_get data ''token'' PNone = Inr token"
    and urls: "py_get data ''urls'' (PList []) = Inr (PList urls)"
    and valid: "client_validate_token core token s = (v, s1)"
  shows "\<exists>results. py_get (body resp) ''results'' PNone = Inr (PList results)
         \<and> length results = length urls
         \<and> (\<forall>i<length urls.
               result_entry (urls ! i) (results ! i)
             \<and> (\<exists>st_i st_i'.
                   url_loop core token (take i urls) [] (s1, [(ValidateToken token, v)])
                     = (Inr (take i results), st_i)
                 \<and> url_loop core token [urls ! i] [] st_i = (Inr [results ! i], st_i')))"
proof -
  from batch_200[OF run ok] tok urls valid obtain w results st2 timestamp where
    v: "v = Inr w" and
    loop: "url_loop core token urls [] (s1, [(ValidateToken token, Inr w)]) = (Inr results, st2)" and
    resp: "resp = jsonify [(''success'', PBool True),
                         (''results'', PList results),
                         (''total'', PInt (int (length urls))),
                         (''successful'', PInt (int (length (filter success_flag results)))),
                         (''timestamp'', timestamp)] 200"
    by auto
  from url_loop_entries[OF loop] have len: "length results = length urls"
    by (auto dest: list_all2_lengthD)
  have "py_get (body resp) ''results'' PNone = Inr (PList results)"
    by (simp add: resp jsonify_def)
  moreover have "\<forall>i<length urls.
               result_entry (urls ! i) (results ! i)
             \<and> (\<exists>st_i st_i'.
                   url_loop core token (take i urls) [] (s1, [(ValidateToken token, v)])
                     = (Inr (take i results), st_i)
                 \<and> url_loop core token [urls ! i] [] st_i = (Inr [results ! i], st_i'))"
    using url_loop_nth[OF loop] v by blast
  ultimately show ?thesis using len by blast
qed

theorem batch_results_follow_urls_witness:
  "status (fst (batch_decode_urls demo_core False (Inr mixed_urls_data) (0, []))) = 200
   \<and> py_get (body (fst (batch_decode_urls demo_core False (Inr mixed_urls_data) (0, []))))
        ''results'' PNone = Inr (PList mixed_results)
   \<and> length mixed_results = length mixed_urls
   \<and> (1::nat) < length mixed_urls
   \<and> result_entry (mixed_urls ! 1) (mixed_results ! 1)"
proof -
  have st: "status (fst (batch_decode_urls demo_core False (Inr mixed_urls_data) (0, []))) = 200"
    and res: "py_get (body (fst (batch_decode_urls demo_core False (Inr mixed_urls_data) (0, []))))
        ''results'' PNone = Inr (PList mixed_results)"
    by (simp_all add: run_defs)
  have h1: "py_get mixed_urls_data ''token'' PNone = Inr (PStr ''good-token'')"
    and h2: "py_get mixed_urls_data ''urls'' (PList []) = Inr (PList mixed_urls)"
    and h3: "client_validate_token demo_core (PStr ''good-token'') 0 = (Inr (PBool True), 0)"
    and one: "(1::nat) < length mixed_urls"
    by (simp_all add: mixed_urls_data_def mixed_urls_def demo_core_def)
  from batch_results_follow_urls[OF surjective_pairing st h1 h2 h3] obtain results where
    r: "py_get (body (fst (batch_decode_urls demo_core False (Inr mixed_urls_data) (0, []))))
          ''results'' PNone = Inr (PList results)"
       "length results = length mixed_urls"
       "\<forall>i<length mixed_urls. result_entry (mixed_urls ! i) (results ! i)"
    by blast
  from r(1) res have "results = mixed_results" by simp
  with r one st res show ?thesis by blast
qed

section \<open>An entry that is not an object\<close>

text \<open>
  Whatever the core does, a list with an element that is not an object makes the loop
  raise: the entries before it are processed, the element itself raises in the \<^verbatim>\<open>try\<close>
  and again in the \<^verbatim>\<open>except\<close> clause.
\<close>

lemma url_loop_non_object:
  "\<not> list_all is_dict us \<Longrightarrow> \<exists>e st'. url_loop core token us acc st = (Inl e, st')"
proof (induction us arbitrary: acc st)
  case Nil
  then show ?case by simp
next
  case (Cons u us)
  show ?case
  proof (cases "is_dict u")
    case False
    then have "py_get u ''encrypted_url'' PNone = Inl (no_attribute_get u)"
      and "py_get u ''video_id'' PNone = Inl (no_attribute_get u)"
      by (cases u; simp)+
    then show ?thesis
      by (simp add: process_url_data_def bind_io_def lift_io_def)
  next
    case True
    with Cons.prems have rest: "\<not> list_all is_dict us" by simp
    obtain r st' where run: "url_loop core token (u # us) acc st = (r, st')"
      by (metis prod.exhaust)
    from url_loop_step[OF run] True obtain entry st1 where
      "url_loop core token us (acc @ [entry]) st1 = (r, st')" by auto
    with Cons.IH[OF rest, of "acc @ [entry]" st1] run show ?thesis by auto
  qed
qed

text \<open>
  Claim C5 says that the failure of one batch entry never aborts or alters the processing
  of the others. The run below has three entries, the second being the string
  \<^verbatim>\<open>"x"\<close>: \<^verbatim>\<open>url_data.get\<close> raises \<^verbatim>\<open>AttributeError\<close> in the \<^verbatim>\<open>try\<close>, and raises it again
  in the \<^verbatim>\<open>except\<close> clause, which leaves the loop. The answer is 500, the result of the
  first entry is lost and the third entry is never decoded.
\<close>

theorem batch_non_object_entry_aborts:
  "batch_decode_urls demo_core False
     (Inr (PDict [(''token'', PStr ''good-token''),
                  (''urls'', PList [PDict [(''encrypted_url'', PStr ''enc:a'')],
                                    PStr ''x'',
                                    PDict [(''encrypted_url'', PStr ''enc:b'')]])]))
     (0, [])
   = (\<lparr>status = 500,
       body = PDict [(''error'', PStr ''Internal server error''),
                     (''code'', PStr ''INTERNAL_ERROR''),
                     (''details'', PNone)]\<rparr>,
      (0, [(ValidateToken (PStr ''good-token''), Inr (PBool True)),
           (DecodeUrl (PStr ''enc:a'') (PStr ''good-token''), Inr (PStr ''a'')),
           (GeneratePlayableUrl (PStr ''a'') (PStr ''good-token''), Inr (PStr ''a?sig=1''))]))"
  by (simp add: handler_defs io_defs demo_core_def)

section \<open>Requests that are rejected without a core call\<close>









end
